theory Spec2Isabelle
  imports Complex_Main "HOL-Library.AList" "HOL-Library.Multiset"
begin

section \<open>The test session of src/contexts/TestContext.tsx\<close>

text \<open>
  The provider keeps one \<open>TestState\<close> value and replaces it through \<open>setTestState\<close>.
  Every operation is modelled as a function from the state before to the state after.
  JavaScript numbers that hold indices, counters and timestamps are integers here:
  \<open>int\<close> where the source can make them negative, \<open>nat\<close> for the tallies that
  only count up from zero.
\<close>

subsection \<open>Data model\<close>

text \<open>
  \<open>interface Question\<close>. The field \<open>id\<close> is called \<open>ident\<close> because \<open>id\<close> is the
  identity function of HOL. \<open>difficulty\<close> is a string: the rows of the store are cast
  to the union type without a check.
\<close>

record Question =
  ident :: string
  subject :: string
  question :: string
  options :: "string list"
  correctAnswer :: int
  difficulty :: string

text \<open>\<open>interface TestAnswer\<close>; \<open>selectedAnswer: number | null\<close> is an option.\<close>

record TestAnswer =
  questionId :: string
  selectedAnswer :: "int option"
  timeSpent :: int
  marked :: bool

text \<open>\<open>interface TestState\<close>; \<open>startTime: Date | null\<close> is the time in milliseconds.\<close>

record TestState =
  questions :: "Question list"
  answers :: "TestAnswer list"
  currentQuestion :: int
  timeRemaining :: int
  isActive :: bool
  startTime :: "int option"

text \<open>\<open>interface User\<close> of AuthContext.tsx; the session code reads \<open>email\<close> only.\<close>

record User =
  user_id :: string
  email :: string
  name :: string
  picture :: "string option"
  isRegistered :: "bool option"

text \<open>A row of the table \<open>questions\<close>, with the columns that \<open>loadQuestions\<close> reads.\<close>

record QuestionRow =
  id_row :: string
  subject_row :: string
  question_row :: string
  option_a :: string
  option_b :: string
  option_c :: string
  option_d :: string
  correct_answer :: int
  difficulty_row :: string

text \<open>The state the provider is created with (\<open>useState\<close>).\<close>

definition initialState :: TestState where
  "initialState =
     \<lparr>questions = [], answers = [], currentQuestion = 0, timeRemaining = 3600,
      isActive = False, startTime = None\<rparr>"

subsection \<open>The built-in question set\<close>

definition mockQuestions :: "Question list" where
  "mockQuestions =
    [\<lparr>ident = ''math_1'', subject = ''Math'',
      question = ''What is 15 '' @ [CHR 0xC3, CHR 0x97] @ '' 8?'',
      options = [''120'', ''110'', ''130'', ''125''], correctAnswer = 0,
      difficulty = ''easy''\<rparr>,
     \<lparr>ident = ''math_2'', subject = ''Math'',
      question = ''Solve for x: 2x + 5 = 17'',
      options = [''6'', ''5'', ''7'', ''8''], correctAnswer = 0,
      difficulty = ''medium''\<rparr>,
     \<lparr>ident = ''science_1'', subject = ''Science'',
      question = ''What is the chemical symbol for gold?'',
      options = [''Go'', ''Gd'', ''Au'', ''Ag''], correctAnswer = 2,
      difficulty = ''easy''\<rparr>,
     \<lparr>ident = ''science_2'', subject = ''Science'',
      question = ''Which planet is known as the Red Planet?'',
      options = [''Venus'', ''Mars'', ''Jupiter'', ''Saturn''], correctAnswer = 1,
      difficulty = ''easy''\<rparr>,
     \<lparr>ident = ''reasoning_1'', subject = ''Reasoning'',
      question = ''If all roses are flowers and some flowers are red, then:'',
      options = [''All roses are red'', ''Some roses are red'', ''No roses are red'',
                 ''Cannot be determined''], correctAnswer = 3,
      difficulty = ''medium''\<rparr>,
     \<lparr>ident = ''reasoning_2'', subject = ''Reasoning'',
      question = ''What comes next in the sequence: 2, 6, 12, 20, ?'',
      options = [''28'', ''30'', ''32'', ''34''], correctAnswer = 1,
      difficulty = ''medium''\<rparr>]"

subsection \<open>Loading the questions\<close>

text \<open>
  What the awaited read \<open>supabase.from('questions').select('*').limit(60)\<close> can do:
  reject (the \<open>await\<close> throws), or resolve to \<open>{ data, error }\<close>, either of which may
  be null.
\<close>

datatype remote_response =
  Throws string
  | Responds (resp_error: "string option") (resp_data: "QuestionRow list option")

text \<open>The arrow function of \<open>questions.map\<close>: the 1-based answer becomes 0-based.\<close>

definition convertRow :: "QuestionRow \<Rightarrow> Question" where
  "convertRow q =
     \<lparr>ident = id_row q, subject = subject_row q, question = question_row q,
      options = [option_a q, option_b q, option_c q, option_d q],
      correctAnswer = correct_answer q - 1, difficulty = difficulty_row q\<rparr>"

text \<open>The arrow function that builds \<open>initialAnswers\<close>.\<close>

definition initialAnswer :: "Question \<Rightarrow> TestAnswer" where
  "initialAnswer q =
     \<lparr>questionId = ident q, selectedAnswer = None, timeSpent = 0, marked = False\<rparr>"

text \<open>
  \<open>[...xs].sort(() => Math.random() - 0.5)\<close> is the parameter \<open>shuffle\<close>: the order it
  produces depends on the random numbers and on the engine's sorting algorithm. Where a
  statement needs it, the hypothesis is that the outcome is a rearrangement of the input.

  The body of the \<open>try\<close> block: \<open>Inl\<close> is the exception that reaches the \<open>catch\<close>.
\<close>

definition loadQuestions_try ::
  "(Question list \<Rightarrow> Question list) \<Rightarrow> remote_response \<Rightarrow> int \<Rightarrow> string + TestState" where
  "loadQuestions_try shuffle remote now =
     (case remote of
        Throws e \<Rightarrow> Inl e
      | Responds error rows \<Rightarrow>
          (let selectedQuestions =
                 (case rows of
                    Some qs \<Rightarrow> if error = None \<and> length qs > 0 then map convertRow qs
                               else mockQuestions
                  | None \<Rightarrow> mockQuestions);
               shuffledQuestions = shuffle selectedQuestions;
               finalQuestions = take (min 6 (length shuffledQuestions)) shuffledQuestions;
               initialAnswers = map initialAnswer finalQuestions
           in Inr \<lparr>questions = finalQuestions, answers = initialAnswers,
                   currentQuestion = 0, timeRemaining = 3600, isActive = True,
                   startTime = Some now\<rparr>))"

text \<open>The body of the \<open>catch\<close> block.\<close>

definition loadQuestions_catch ::
  "(Question list \<Rightarrow> Question list) \<Rightarrow> int \<Rightarrow> TestState" where
  "loadQuestions_catch shuffle now =
     (let shuffledQuestions = shuffle mockQuestions;
          selectedQuestions = take 6 shuffledQuestions;
          initialAnswers = map initialAnswer selectedQuestions
      in \<lparr>questions = selectedQuestions, answers = initialAnswers,
          currentQuestion = 0, timeRemaining = 3600, isActive = True,
          startTime = Some now\<rparr>)"

text \<open>
  \<open>loadQuestions\<close>: the result is the error that leaves the function, or the state it
  sets.
\<close>

definition loadQuestions ::
  "(Question list \<Rightarrow> Question list) \<Rightarrow> remote_response \<Rightarrow> int \<Rightarrow> string + TestState" where
  "loadQuestions shuffle remote now =
     (case loadQuestions_try shuffle remote now of
        Inr s \<Rightarrow> Inr s
      | Inl e \<Rightarrow> Inr (loadQuestions_catch shuffle now))"

text \<open>\<open>startTest\<close> calls \<open>loadQuestions\<close>; a state is replaced only when one is set.\<close>

definition startTest ::
  "(Question list \<Rightarrow> Question list) \<Rightarrow> remote_response \<Rightarrow> int \<Rightarrow> TestState \<Rightarrow> TestState" where
  "startTest shuffle remote now prev =
     (case loadQuestions shuffle remote now of Inr s \<Rightarrow> s | Inl e \<Rightarrow> prev)"

subsection \<open>The operations of the session\<close>

definition endTest :: "TestState \<Rightarrow> TestState" where
  "endTest prev = prev\<lparr>isActive := False\<rparr>"

definition selectAnswer :: "string \<Rightarrow> int \<Rightarrow> TestState \<Rightarrow> TestState" where
  "selectAnswer qid answer prev =
     prev\<lparr>answers :=
       map (\<lambda>a. if questionId a = qid then a\<lparr>selectedAnswer := Some answer\<rparr> else a)
         (answers prev)\<rparr>"

definition markForReview :: "string \<Rightarrow> TestState \<Rightarrow> TestState" where
  "markForReview qid prev =
     prev\<lparr>answers :=
       map (\<lambda>a. if questionId a = qid then a\<lparr>marked := \<not> marked a\<rparr> else a)
         (answers prev)\<rparr>"

definition navigateToQuestion :: "int \<Rightarrow> TestState \<Rightarrow> TestState" where
  "navigateToQuestion index prev = prev\<lparr>currentQuestion := index\<rparr>"

text \<open>
  The cursor is a JavaScript number, and \<open>+ 1\<close> and \<open>- 1\<close> on it are additions in double
  precision: the exact sum, rounded to the nearest number that has a significand of 53
  bits, a tie going to the even significand. \<open>excessBits n\<close> is the number of bits by
  which \<open>n\<close> is longer than 53, and \<open>toDouble x\<close> is the integer \<open>x\<close> so rounded. (The
  sum of a number and 1 never leaves the finite numbers, so no infinity arises.)
\<close>

fun excessBits :: "nat \<Rightarrow> nat" where
  "excessBits n = (if n < 2 ^ 53 then 0 else Suc (excessBits (n div 2)))"

declare excessBits.simps [simp del]

definition roundNat :: "nat \<Rightarrow> nat" where
  "roundNat n =
     (let e = excessBits n;
          q = n div 2 ^ e;
          r = n mod 2 ^ e;
          m = (if 2 * r > 2 ^ e \<or> (2 * r = 2 ^ e \<and> odd q) then q + 1 else q)
      in m * 2 ^ e)"

definition toDouble :: "int \<Rightarrow> int" where
  "toDouble x = sgn x * int (roundNat (nat \<bar>x\<bar>))"

definition nextQuestion :: "TestState \<Rightarrow> TestState" where
  "nextQuestion prev =
     prev\<lparr>currentQuestion :=
       min (toDouble (currentQuestion prev + 1)) (int (length (questions prev)) - 1)\<rparr>"

definition previousQuestion :: "TestState \<Rightarrow> TestState" where
  "previousQuestion prev =
     prev\<lparr>currentQuestion := max (toDouble (currentQuestion prev - 1)) 0\<rparr>"

text \<open>The calls a holder of the context can make on the session, one after another.\<close>

datatype event =
  StartTest remote_response int
  | EndTest
  | SelectAnswer string int
  | MarkForReview string
  | NavigateToQuestion int
  | NextQuestion
  | PreviousQuestion

fun dispatch :: "(Question list \<Rightarrow> Question list) \<Rightarrow> TestState \<Rightarrow> event \<Rightarrow> TestState" where
  "dispatch shuffle s (StartTest remote now) = startTest shuffle remote now s"
| "dispatch shuffle s EndTest = endTest s"
| "dispatch shuffle s (SelectAnswer qid answer) = selectAnswer qid answer s"
| "dispatch shuffle s (MarkForReview qid) = markForReview qid s"
| "dispatch shuffle s (NavigateToQuestion index) = navigateToQuestion index s"
| "dispatch shuffle s NextQuestion = nextQuestion s"
| "dispatch shuffle s PreviousQuestion = previousQuestion s"

text \<open>Only the two cursor steps, for runs of \<open>nextQuestion\<close> and \<open>previousQuestion\<close>.\<close>

datatype cursor_step = Next | Previous

fun cursorStep :: "TestState \<Rightarrow> cursor_step \<Rightarrow> TestState" where
  "cursorStep s Next = nextQuestion s"
| "cursorStep s Previous = previousQuestion s"

subsection \<open>Scoring and submission\<close>

text \<open>One value of the object \<open>subjectScores\<close>: \<open>{ correct, total }\<close>.\<close>

record SubjectScore =
  correct :: nat
  total :: nat

text \<open>
  \<open>subjectScores\<close> is created by the object literal \<open>{}\<close>, so it inherits from
  \<open>Object.prototype\<close>, and the read \<open>subjectScores[subject]\<close> also finds what is
  inherited. These are the names \<open>Object.prototype\<close> defines; the value found under
  each of them is a function or an object, which the test \<open>!subjectScores[subject]\<close>
  takes for an entry that exists.
\<close>

definition objectPrototypeKeys :: "string list" where
  "objectPrototypeKeys =
     [''constructor'', ''__defineGetter__'', ''__defineSetter__'', ''hasOwnProperty'',
      ''__lookupGetter__'', ''__lookupSetter__'', ''isPrototypeOf'',
      ''propertyIsEnumerable'', ''toString'', ''valueOf'', ''__proto__'',
      ''toLocaleString'']"

text \<open>
  The own properties of \<open>subjectScores\<close> are an association list in the order of their
  creation. \<open>tally\<close> is the body of the \<open>forEach\<close> callback once \<open>question\<close> is
  found. Under an inherited name no own property is created, and the two increments
  write \<open>total\<close> and \<open>correct\<close> on the inherited value, which \<open>Object.entries\<close>
  never lists: the own properties stay as they are.
\<close>

definition tally ::
  "(string \<times> SubjectScore) list \<Rightarrow> TestAnswer \<Rightarrow> Question \<Rightarrow> (string \<times> SubjectScore) list" where
  "tally subjectScores answer q =
     (let subj = subject q in
      if subj \<in> set objectPrototypeKeys then subjectScores
      else
        let created =
              (if map_of subjectScores subj = None
               then subjectScores @ [(subj, \<lparr>correct = 0, total = 0\<rparr>)]
               else subjectScores);
            counted = AList.map_entry subj (\<lambda>sc. sc\<lparr>total := total sc + 1\<rparr>) created
        in if selectedAnswer answer = Some (correctAnswer q)
           then AList.map_entry subj (\<lambda>sc. sc\<lparr>correct := correct sc + 1\<rparr>) counted
           else counted)"

text \<open>
  \<open>testState.answers.forEach((answer, index) => ...)\<close>: \<open>testState.questions[index]\<close>
  is undefined past the end of the questions, and the callback returns at once.
\<close>

fun scoreAnswers ::
  "Question list \<Rightarrow> TestAnswer list \<Rightarrow> nat \<Rightarrow> (string \<times> SubjectScore) list
     \<Rightarrow> (string \<times> SubjectScore) list" where
  "scoreAnswers qs [] index subjectScores = subjectScores"
| "scoreAnswers qs (answer # rest) index subjectScores =
     scoreAnswers qs rest (index + 1)
       (if index < length qs then tally subjectScores answer (qs ! index)
        else subjectScores)"

definition calculateScores :: "TestState \<Rightarrow> (string \<times> SubjectScore) list" where
  "calculateScores testState = scoreAnswers (questions testState) (answers testState) 0 []"

text \<open>
  \<open>scores.total > 0 ? Math.round((scores.correct / scores.total) * 100) : 0\<close>.
  \<open>Math.round\<close> rounds a half upwards, as \<^const>\<open>round\<close> does. The quotient is taken
  exactly here and in double precision in the source; the two agree as long as
  \<open>100 * correct / total\<close> is not within the rounding error of a half, which holds for
  every total up to six, the largest a session built by \<open>loadQuestions\<close> has.
\<close>

definition percentage :: "SubjectScore \<Rightarrow> int" where
  "percentage scores =
     (if total scores > 0 then round ((real (correct scores) / real (total scores)) * 100)
      else 0)"

text \<open>
  One element of \<open>testResults\<close>. The two JSON texts are kept as the lists that
  \<open>JSON.stringify\<close> is given, \<open>test_time\<close> as the time that \<open>toISOString\<close> prints.
\<close>

record TestResult =
  email_res :: string
  test_time :: "int option"
  subject_res :: string
  questions_res :: "Question list"
  answers_res :: "TestAnswer list"
  score :: int
  duration_seconds :: int

text \<open>\<open>testState.answers.filter((_, index) => testState.questions[index]?.subject === subject)\<close>\<close>

definition answersOfSubject :: "TestState \<Rightarrow> string \<Rightarrow> TestAnswer list" where
  "answersOfSubject testState subj =
     map fst
       (filter (\<lambda>(a, index). index < length (questions testState)
                  \<and> subject (questions testState ! index) = subj)
          (zip (answers testState) [0 ..< length (answers testState)]))"

definition duration :: "TestState \<Rightarrow> int \<Rightarrow> int" where
  "duration testState now =
     (case startTime testState of Some t \<Rightarrow> (now - t) div 1000 | None \<Rightarrow> 0)"

text \<open>
  The array \<open>testResults\<close>. \<open>Object.entries\<close> lists the own properties; it puts names
  that are array indices before the others, so for such subject names the order of the
  records differs from the order here. Nothing below depends on that order.
\<close>

definition buildResults :: "User \<Rightarrow> int \<Rightarrow> TestState \<Rightarrow> TestResult list" where
  "buildResults user now testState =
     map (\<lambda>(subj, scores).
            \<lparr>email_res = email user, test_time = startTime testState, subject_res = subj,
             questions_res = filter (\<lambda>q. subject q = subj) (questions testState),
             answers_res = answersOfSubject testState subj,
             score = percentage scores,
             duration_seconds = duration testState now\<rparr>)
       (calculateScores testState)"

text \<open>
  What \<open>supabase.from('test_results').insert(testResults)\<close> can do: reject, or resolve
  to \<open>{ error }\<close>.
\<close>

datatype insert_response = InsertThrows string | InsertResponds "string option"

text \<open>
  What leaves \<open>submitTest\<close> as an exception: the \<open>Error\<close> it creates itself, the
  \<open>error\<close> the store returned, or the rejection of the awaited insert.
\<close>

datatype error = Error string | StoreError string | Rejected string

text \<open>
  The outcome of a call of \<open>submitTest\<close>: the exception that reaches the caller if
  there is one, the state of the provider afterwards, and the records handed to
  \<open>insert\<close> (\<open>None\<close> when \<open>insert\<close> was not called).
\<close>

record SubmitOutcome =
  thrown :: "error option"
  state_after :: TestState
  inserted :: "TestResult list option"

text \<open>
  \<open>submitTest\<close>, the declaration at the top of the provider, which reads the user and
  writes to the table \<open>test_results\<close>. (Further down the file declares the name a
  second time, with an earlier body that only logs and calls \<open>endTest\<close>; the two
  cannot both be in force, and the first is the one modelled.) \<open>user\<close> comes from
  \<open>useAuth\<close>, \<open>now\<close> is \<open>new Date().getTime()\<close>, \<open>store\<close> answers the insert. The
  \<open>catch\<close> block logs and throws the same exception again.
\<close>

definition submitTest ::
  "User option \<Rightarrow> int \<Rightarrow> (TestResult list \<Rightarrow> insert_response) \<Rightarrow> TestState \<Rightarrow> SubmitOutcome" where
  "submitTest user now store testState =
     (case user of
        None \<Rightarrow>
          \<lparr>thrown = Some (Error ''User not authenticated''), state_after = testState,
           inserted = None\<rparr>
      | Some u \<Rightarrow>
          (let testResults = buildResults u now testState in
           case store testResults of
             InsertThrows e \<Rightarrow>
               \<lparr>thrown = Some (Rejected e), state_after = testState,
                inserted = Some testResults\<rparr>
           | InsertResponds (Some e) \<Rightarrow>
               \<lparr>thrown = Some (StoreError e), state_after = testState,
                inserted = Some testResults\<rparr>
           | InsertResponds None \<Rightarrow>
               \<lparr>thrown = None, state_after = endTest testState,
                inserted = Some testResults\<rparr>))"

subsection \<open>The scorer as the specification words it\<close>

text \<open>
  The positions of a subject, and those among them where the selected option is the
  correct one; the percentage as \<open>round(100 * correct / total)\<close>.
\<close>

definition spec_total :: "Question list \<Rightarrow> string \<Rightarrow> nat" where
  "spec_total qs subj = length (filter (\<lambda>i. subject (qs ! i) = subj) [0 ..< length qs])"

definition spec_correct :: "Question list \<Rightarrow> TestAnswer list \<Rightarrow> string \<Rightarrow> nat" where
  "spec_correct qs as subj =
     length (filter (\<lambda>i. subject (qs ! i) = subj
                          \<and> selectedAnswer (as ! i) = Some (correctAnswer (qs ! i)))
               [0 ..< length qs])"

definition spec_percentage :: "nat \<Rightarrow> nat \<Rightarrow> int" where
  "spec_percentage c t = (if t > 0 then round (100 * real c / real t) else 0)"

subsection \<open>Invariants\<close>

text \<open>The answer records carry, position by position, the ids of the questions.\<close>

definition aligned :: "TestState \<Rightarrow> bool" where
  "aligned s \<longleftrightarrow> map questionId (answers s) = map ident (questions s)"

definition cursorInRange :: "TestState \<Rightarrow> bool" where
  "cursorInRange s \<longleftrightarrow>
     0 \<le> currentQuestion s \<and> currentQuestion s \<le> int (length (questions s)) - 1"

text \<open>The same alignment, read index by index.\<close>

definition positionsAligned :: "TestState \<Rightarrow> bool" where
  "positionsAligned s \<longleftrightarrow>
     length (answers s) = length (questions s)
     \<and> (\<forall>i < length (questions s). questionId (answers s ! i) = ident (questions s ! i))"

text \<open>
  The outcomes of the remote read after which \<open>loadQuestions\<close> has no rows of the store
  to use: the read throws, it reports an error, it has no data, or the data is empty.
\<close>

fun remoteUnusable :: "remote_response \<Rightarrow> bool" where
  "remoteUnusable (Throws e) = True"
| "remoteUnusable (Responds error rows) = (error \<noteq> None \<or> rows = None \<or> rows = Some [])"

text \<open>
  A session over the whole built-in set in its written order, nothing answered yet,
  started at time 0, and a signed-in user: the concrete inputs of the examples below.
\<close>

definition mockSession :: TestState where
  "mockSession =
     \<lparr>questions = mockQuestions, answers = map initialAnswer mockQuestions,
      currentQuestion = 0, timeRemaining = 3600, isActive = True, startTime = Some 0\<rparr>"

definition mockUser :: User where
  "mockUser =
     \<lparr>user_id = ''u1'', email = ''user@example.com'', name = ''Test User'',
      picture = None, isRegistered = Some True\<rparr>"

text \<open>
  A session of one question of the store whose subject is named \<open>constructor\<close>,
  answered with the correct option.
\<close>

definition constructorSession :: TestState where
  "constructorSession =
     \<lparr>questions =
        [\<lparr>ident = ''q1'', subject = ''constructor'',
          question = ''Which method creates an instance?'',
          options = [''new'', ''delete'', ''typeof'', ''void''], correctAnswer = 0,
          difficulty = ''easy''\<rparr>],
      answers =
        [\<lparr>questionId = ''q1'', selectedAnswer = Some 0, timeSpent = 0, marked = False\<rparr>],
      currentQuestion = 0, timeRemaining = 3600, isActive = True, startTime = Some 0\<rparr>"

text \<open>
  The two questions and two answers of the scorer example of the specification: both
  of subject Math, correct options 0 and 1, option 0 selected for both.
\<close>

definition exampleSession :: TestState where
  "exampleSession =
     \<lparr>questions =
        [\<lparr>ident = ''a'', subject = ''Math'', question = ''first'',
          options = [''w'', ''x'', ''y'', ''z''], correctAnswer = 0, difficulty = ''easy''\<rparr>,
         \<lparr>ident = ''b'', subject = ''Math'', question = ''second'',
          options = [''w'', ''x'', ''y'', ''z''], correctAnswer = 1, difficulty = ''easy''\<rparr>],
      answers =
        [\<lparr>questionId = ''a'', selectedAnswer = Some 0, timeSpent = 0, marked = False\<rparr>,
         \<lparr>questionId = ''b'', selectedAnswer = Some 0, timeSpent = 0, marked = False\<rparr>],
      currentQuestion = 0, timeRemaining = 3600, isActive = True, startTime = Some 0\<rparr>"

subsection \<open>Auxiliary notions for the scorer\<close>

text \<open>The tally a subject has so far, zero on both counts when it has no entry.\<close>

definition the_score :: "(string \<times> SubjectScore) list \<Rightarrow> string \<Rightarrow> SubjectScore" where
  "the_score acc subj =
     (case map_of acc subj of None \<Rightarrow> \<lparr>correct = 0, total = 0\<rparr> | Some sc \<Rightarrow> sc)"

text \<open>Counts over the pairs of an answer and its question that the loop visits.\<close>

definition cnt_total :: "(TestAnswer \<times> Question) list \<Rightarrow> string \<Rightarrow> nat" where
  "cnt_total ps subj = length (filter (\<lambda>(a, q). subject q = subj) ps)"

definition cnt_correct :: "(TestAnswer \<times> Question) list \<Rightarrow> string \<Rightarrow> nat" where
  "cnt_correct ps subj =
     length (filter (\<lambda>(a, q). subject q = subj \<and> selectedAnswer a = Some (correctAnswer q)) ps)"

section \<open>Properties of the session operations\<close>

subsection \<open>Alignment of questions and answer records\<close>

lemma aligned_initialState: "aligned initialState"
  by (simp add: aligned_def initialState_def)

lemma aligned_startTest: "aligned (startTest shuffle remote now s)"
  by (simp add: aligned_def startTest_def loadQuestions_def loadQuestions_try_def
      loadQuestions_catch_def initialAnswer_def Let_def comp_def
      split: remote_response.splits option.splits)

lemma aligned_selectAnswer: "aligned s \<Longrightarrow> aligned (selectAnswer qid a s)"
  by (simp add: aligned_def selectAnswer_def comp_def if_distrib [of questionId]
      cong: if_cong)

lemma aligned_markForReview: "aligned s \<Longrightarrow> aligned (markForReview qid s)"
  by (simp add: aligned_def markForReview_def comp_def if_distrib [of questionId]
      cong: if_cong)

lemma aligned_dispatch: "aligned s \<Longrightarrow> aligned (dispatch shuffle s ev)"
  by (cases ev)
    (simp_all add: aligned_startTest aligned_selectAnswer aligned_markForReview,
     simp_all add: aligned_def endTest_def navigateToQuestion_def nextQuestion_def
       previousQuestion_def)

lemma aligned_run: "aligned s \<Longrightarrow> aligned (foldl (dispatch shuffle) s evs)"
  by (induction evs arbitrary: s) (simp_all add: aligned_dispatch)

lemma aligned_positions:
  assumes "aligned s"
  shows "positionsAligned s"
proof -
  from assms have eq: "map questionId (answers s) = map ident (questions s)"
    by (simp add: aligned_def)
  then have len: "length (answers s) = length (questions s)"
    by (rule map_eq_imp_length_eq)
  have "questionId (answers s ! i) = ident (questions s ! i)"
    if "i < length (questions s)" for i
    using that len eq by (metis nth_map)
  with len show ?thesis
    by (simp add: positionsAligned_def)
qed

text \<open>
  Claim C1. Whatever calls are made on the provider, from its first state or after a
  start from any state at all, the answer records are as many as the questions, and the
  record at each index carries the id of the question at that index. The calls are any
  sequence of \<open>startTest\<close>, \<open>endTest\<close>, \<open>selectAnswer\<close>, \<open>markForReview\<close>,
  \<open>navigateToQuestion\<close>, \<open>nextQuestion\<close> and \<open>previousQuestion\<close>, with any
  outcome of the remote read and of the shuffle.
\<close>

theorem session_alignment:
  "positionsAligned (foldl (dispatch shuffle) initialState evs)
   \<and> positionsAligned (foldl (dispatch shuffle) (startTest shuffle remote now s) evs)"
  by (simp add: aligned_positions aligned_run aligned_initialState aligned_startTest)

theorem session_alignment_witness:
  "questionId
     (answers (foldl (dispatch rev) initialState
        [StartTest (Throws ''offline'') 0, SelectAnswer ''math_1'' 2,
         MarkForReview ''math_2'', NextQuestion]) ! 5)
   = ''math_1''"
proof -
  let ?s = "foldl (dispatch rev) initialState
        [StartTest (Throws ''offline'') 0, SelectAnswer ''math_1'' 2,
         MarkForReview ''math_2'', NextQuestion]"
  have qs: "questions ?s = rev mockQuestions"
    by (simp add: startTest_def loadQuestions_def loadQuestions_try_def
        loadQuestions_catch_def selectAnswer_def markForReview_def nextQuestion_def
        mockQuestions_def)
  have "positionsAligned ?s"
    using session_alignment [of rev "[StartTest (Throws ''offline'') 0,
      SelectAnswer ''math_1'' 2, MarkForReview ''math_2'', NextQuestion]"]
    by (rule conjunct1)
  then have "\<forall>i < length (questions ?s). questionId (answers ?s ! i) = ident (questions ?s ! i)"
    unfolding positionsAligned_def by (rule conjunct2)
  then have "questionId (answers ?s ! 5) = ident (rev mockQuestions ! 5)"
    unfolding qs by (simp add: mockQuestions_def)
  then show ?thesis
    by (simp add: mockQuestions_def)
qed

subsection \<open>The cursor\<close>

lemma excessBits_small: "n < 2 ^ 53 \<Longrightarrow> excessBits n = 0"
  by (subst excessBits.simps) simp

lemma roundNat_exact:
  assumes "n \<le> 2 ^ 53"
  shows "roundNat n = n"
proof (cases "n < 2 ^ 53")
  case True
  then show ?thesis by (simp add: roundNat_def excessBits_small)
next
  case False
  with assms have n: "n = 2 ^ 53" by simp
  have "excessBits (2 ^ 53) = Suc (excessBits (2 ^ 52))"
    by (subst excessBits.simps) simp
  also have "excessBits (2 ^ 52) = 0"
    by (rule excessBits_small) simp
  finally have e: "excessBits n = 1" by (simp add: n)
  show ?thesis by (simp add: roundNat_def e Let_def) (simp add: n)
qed

lemma toDouble_exact:
  assumes "\<bar>x\<bar> \<le> 2 ^ 53"
  shows "toDouble x = x"
proof -
  from assms have "nat \<bar>x\<bar> \<le> 2 ^ 53" by (simp add: nat_le_iff)
  then have "roundNat (nat \<bar>x\<bar>) = nat \<bar>x\<bar>" by (rule roundNat_exact)
  then show ?thesis by (simp add: toDouble_def mult_sgn_abs)
qed

text \<open>
  Past the integers that double precision holds exactly the two steps do not move the
  cursor: \<open>2^54 - 1\<close> and \<open>-2^54 + 1\<close> are rounded back to \<open>2^54\<close> and \<open>-2^54\<close>.
\<close>

lemma roundNat_tie: "roundNat 18014398509481983 = 18014398509481984"
proof -
  have "excessBits 18014398509481983 = Suc (excessBits 9007199254740991)"
    by (subst excessBits.simps) simp
  also have "excessBits 9007199254740991 = 0"
    by (rule excessBits_small) simp
  finally have e: "excessBits 18014398509481983 = 1" by simp
  show ?thesis by (simp add: roundNat_def e Let_def)
qed

lemma cursor_past_exact_integers:
  "currentQuestion (previousQuestion (navigateToQuestion (2 ^ 54) s)) = 2 ^ 54"
  "currentQuestion (nextQuestion (navigateToQuestion (- (2 ^ 54)) s)) = - (2 ^ 54)"
  by (simp_all add: previousQuestion_def nextQuestion_def navigateToQuestion_def
      toDouble_def roundNat_tie)

lemma cursor_formulas:
  assumes "\<bar>currentQuestion s\<bar> < 2 ^ 53"
  shows "currentQuestion (nextQuestion s)
           = min (currentQuestion s + 1) (int (length (questions s)) - 1)"
    and "currentQuestion (previousQuestion s) = max (currentQuestion s - 1) 0"
proof -
  from assms have "\<bar>currentQuestion s + 1\<bar> \<le> 2 ^ 53" and "\<bar>currentQuestion s - 1\<bar> \<le> 2 ^ 53"
    by simp_all
  then have "toDouble (currentQuestion s + 1) = currentQuestion s + 1"
    and "toDouble (currentQuestion s - 1) = currentQuestion s - 1"
    by (simp_all add: toDouble_exact)
  then show "currentQuestion (nextQuestion s)
           = min (currentQuestion s + 1) (int (length (questions s)) - 1)"
    and "currentQuestion (previousQuestion s) = max (currentQuestion s - 1) 0"
    by (simp_all add: nextQuestion_def previousQuestion_def)
qed

lemma cursorInRange_step:
  assumes "cursorInRange s" and "int (length (questions s)) \<le> 2 ^ 53"
  shows "cursorInRange (cursorStep s c)"
    and "questions (cursorStep s c) = questions s"
proof -
  from assms have "\<bar>currentQuestion s\<bar> < 2 ^ 53"
    by (simp add: cursorInRange_def)
  from cursor_formulas [OF this] assms(1) show "cursorInRange (cursorStep s c)"
    by (cases c) (auto simp: cursorInRange_def nextQuestion_def previousQuestion_def)
  show "questions (cursorStep s c) = questions s"
    by (cases c) (simp_all add: nextQuestion_def previousQuestion_def)
qed

lemma cursorInRange_run:
  assumes "cursorInRange s" and "int (length (questions s)) \<le> 2 ^ 53"
  shows "cursorInRange (foldl cursorStep s cs)"
  using assms
proof (induction cs arbitrary: s)
  case Nil
  then show ?case by simp
next
  case (Cons c cs)
  from cursorInRange_step [OF Cons.prems, of c] Cons.prems(2)
  have "cursorInRange (cursorStep s c)"
    and "int (length (questions (cursorStep s c))) \<le> 2 ^ 53"
    by simp_all
  then have "cursorInRange (foldl cursorStep (cursorStep s c) cs)"
    by (rule Cons.IH)
  then show ?case by simp
qed

text \<open>
  Claim C5. \<open>nextQuestion\<close> sets the cursor to \<open>min(cursor + 1, len(questions) - 1)\<close>
  and \<open>previousQuestion\<close> sets it to \<open>max(cursor - 1, 0)\<close>, for every cursor among the
  integers that double precision holds exactly. From a cursor within
  \<open>[0, len(questions) - 1]\<close> no sequence of \<open>nextQuestion\<close> and \<open>previousQuestion\<close>
  calls, however often repeated at a boundary, moves the cursor outside that range:
  the steps stop at the last index and at 0 and do not wrap around. The bound on the
  number of questions holds of every array, whose length is below \<open>2^32\<close>.
\<close>

theorem cursor_never_leaves_range:
  "(\<bar>currentQuestion s\<bar> < 2 ^ 53 \<longrightarrow>
      currentQuestion (nextQuestion s)
        = min (currentQuestion s + 1) (int (length (questions s)) - 1)
      \<and> currentQuestion (previousQuestion s) = max (currentQuestion s - 1) 0)
   \<and> (cursorInRange s \<and> int (length (questions s)) \<le> 2 ^ 53 \<longrightarrow>
      cursorInRange (foldl cursorStep s cs))"
  using cursor_formulas [of s] cursorInRange_run [of s cs] by blast

theorem cursor_never_leaves_range_witness:
  "cursorInRange mockSession
   \<and> cursorInRange (foldl cursorStep mockSession
        [Previous, Next, Next, Next, Next, Next, Next, Next, Previous])
   \<and> currentQuestion (nextQuestion mockSession) = 1
   \<and> currentQuestion (previousQuestion mockSession) = 0
   \<and> currentQuestion (nextQuestion (navigateToQuestion 5 mockSession)) = 5"
proof -
  have h: "cursorInRange mockSession"
    by (simp add: cursorInRange_def mockSession_def mockQuestions_def)
  have l: "int (length (questions mockSession)) \<le> 2 ^ 53"
    by (simp add: mockSession_def mockQuestions_def)
  have c: "\<bar>currentQuestion mockSession\<bar> < 2 ^ 53"
    by (simp add: mockSession_def)
  have c5: "\<bar>currentQuestion (navigateToQuestion 5 mockSession)\<bar> < 2 ^ 53"
    by (simp add: navigateToQuestion_def)
  from cursor_never_leaves_range [of mockSession
      "[Previous, Next, Next, Next, Next, Next, Next, Next, Previous]"] h l c
  have a: "cursorInRange (foldl cursorStep mockSession
        [Previous, Next, Next, Next, Next, Next, Next, Next, Previous])"
    and b: "currentQuestion (nextQuestion mockSession) = 1"
      "currentQuestion (previousQuestion mockSession) = 0"
    by (simp_all add: mockSession_def mockQuestions_def)
  from cursor_never_leaves_range [of "navigateToQuestion 5 mockSession"] c5
  have "currentQuestion (nextQuestion (navigateToQuestion 5 mockSession)) = 5"
    by (simp add: navigateToQuestion_def mockSession_def mockQuestions_def)
  with h a b show ?thesis by simp
qed

text \<open>
  Claim C9. \<open>navigateToQuestion\<close> stores the index it is given, whatever integer it is
  and however many questions there are, and changes nothing else.
\<close>

theorem navigate_verbatim:
  "currentQuestion (navigateToQuestion index s) = index
   \<and> questions (navigateToQuestion index s) = questions s
   \<and> answers (navigateToQuestion index s) = answers s
   \<and> timeRemaining (navigateToQuestion index s) = timeRemaining s
   \<and> isActive (navigateToQuestion index s) = isActive s
   \<and> startTime (navigateToQuestion index s) = startTime s"
  by (simp add: navigateToQuestion_def)

subsection \<open>Marking for review\<close>

lemma toggle_twice:
  "map ((\<lambda>a. if questionId a = qid then a\<lparr>marked := \<not> marked a\<rparr> else a) \<circ>
        (\<lambda>a. if questionId a = qid then a\<lparr>marked := \<not> marked a\<rparr> else a)) xs = xs"
  by (induction xs) auto

text \<open>
  Claim C8. For an answer record at index \<open>i\<close> that carries the question id, one
  \<open>markForReview\<close> with that id inverts its flag, and a second one gives back the
  state as it was: the flag has its first value and nothing else has changed.
\<close>

theorem markForReview_twice:
  assumes "i < length (answers s)" and "questionId (answers s ! i) = qid"
  shows "marked (answers (markForReview qid s) ! i) = (\<not> marked (answers s ! i))
       \<and> marked (answers (markForReview qid (markForReview qid s)) ! i)
           = marked (answers s ! i)
       \<and> markForReview qid (markForReview qid s) = s"
proof -
  have twice: "markForReview qid (markForReview qid s) = s"
    by (simp add: markForReview_def toggle_twice)
  from assms have "marked (answers (markForReview qid s) ! i) = (\<not> marked (answers s ! i))"
    by (simp add: markForReview_def)
  with twice show ?thesis by simp
qed

theorem markForReview_twice_witness:
  "marked (answers (markForReview ''math_2'' mockSession) ! 1)
   \<and> markForReview ''math_2'' (markForReview ''math_2'' mockSession) = mockSession"
proof -
  have h1: "1 < length (answers mockSession)"
    by (simp add: mockSession_def mockQuestions_def)
  have h2: "questionId (answers mockSession ! 1) = ''math_2''"
    by (simp add: mockSession_def mockQuestions_def initialAnswer_def)
  have "\<not> marked (answers mockSession ! 1)"
    by (simp add: mockSession_def mockQuestions_def initialAnswer_def)
  with markForReview_twice [OF h1 h2] show ?thesis by simp
qed

subsection \<open>Falling back to the built-in questions\<close>

lemma length_mockQuestions: "length mockQuestions = 6"
  by (simp add: mockQuestions_def)

lemma loadQuestions_unusable:
  assumes "remoteUnusable remote"
  shows "loadQuestions shuffle remote now =
           Inr \<lparr>questions = take (min 6 (length (shuffle mockQuestions))) (shuffle mockQuestions),
                answers = map initialAnswer
                  (take (min 6 (length (shuffle mockQuestions))) (shuffle mockQuestions)),
                currentQuestion = 0, timeRemaining = 3600, isActive = True,
                startTime = Some now\<rparr>
       \<or> loadQuestions shuffle remote now =
           Inr \<lparr>questions = take 6 (shuffle mockQuestions),
                answers = map initialAnswer (take 6 (shuffle mockQuestions)),
                currentQuestion = 0, timeRemaining = 3600, isActive = True,
                startTime = Some now\<rparr>"
  using assms
  by (cases remote)
    (auto simp: loadQuestions_def loadQuestions_try_def loadQuestions_catch_def Let_def
      split: option.splits)

text \<open>
  Claim C7. Let the shuffle rearrange the built-in set. When the remote read throws,
  reports an error, has no data or has empty data, \<open>loadQuestions\<close> ends without an
  exception and sets an active session whose questions are the built-in questions, each
  once, in the shuffled order: six of them, which is the smaller of the session size 6
  and the size of the built-in set.
\<close>

theorem fallback_session:
  assumes "mset (shuffle mockQuestions) = mset mockQuestions"
    and "remoteUnusable remote"
  shows "\<exists>s. loadQuestions shuffle remote now = Inr s
           \<and> mset (questions s) = mset mockQuestions
           \<and> set (questions s) \<subseteq> set mockQuestions
           \<and> length (questions s) = min 6 (length mockQuestions)
           \<and> length (questions s) = 6
           \<and> isActive s"
proof -
  from assms(1) have len: "length (shuffle mockQuestions) = 6"
    using length_mockQuestions by (metis size_mset)
  then have tk: "take 6 (shuffle mockQuestions) = shuffle mockQuestions"
    by simp
  from assms(1) have st: "set (shuffle mockQuestions) = set mockQuestions"
    by (rule mset_eq_setD)
  from loadQuestions_unusable [OF assms(2), of shuffle now]
  show ?thesis
    using assms(1) len tk st length_mockQuestions by auto
qed

theorem fallback_session_witness:
  "(case loadQuestions rev (Responds (Some ''timeout'') None) 42 of
      Inr s \<Rightarrow> length (questions s) = 6 \<and> isActive s | Inl e \<Rightarrow> False)
   \<and> (case loadQuestions rev (Throws ''network'') 42 of
      Inr s \<Rightarrow> length (questions s) = 6 \<and> isActive s | Inl e \<Rightarrow> False)
   \<and> (case loadQuestions rev (Responds None (Some [])) 42 of
      Inr s \<Rightarrow> length (questions s) = 6 \<and> isActive s | Inl e \<Rightarrow> False)"
proof -
  have h1: "mset (rev mockQuestions) = mset mockQuestions" by simp
  have h2: "remoteUnusable (Responds (Some ''timeout'') None)" by simp
  have h3: "remoteUnusable (Throws ''network'')" by simp
  have h4: "remoteUnusable (Responds None (Some []))" by simp
  from fallback_session [of rev "Responds (Some ''timeout'') None" 42, OF h1 h2]
    fallback_session [of rev "Throws ''network''" 42, OF h1 h3]
    fallback_session [of rev "Responds None (Some [])" 42, OF h1 h4]
  show ?thesis by auto
qed

subsection \<open>Submitting\<close>

text \<open>
  Claim C4. Without a user \<open>submitTest\<close> throws the error "User not authenticated" to its
  caller; the state of the session is the one before the call, field by field, and the
  store is not called: no record is built or written.
\<close>

theorem submit_unauthenticated:
  "thrown (submitTest None now store s) = Some (Error ''User not authenticated'')
   \<and> state_after (submitTest None now store s) = s
   \<and> inserted (submitTest None now store s) = None"
  by (simp add: submitTest_def)

text \<open>
  Claim C3. With a user, when the insert of the records returns an error or rejects,
  \<open>submitTest\<close> throws that failure to its caller and the state is the one before the
  call, so the active flag is what it was; when the insert succeeds nothing is thrown
  and the state is the one \<open>endTest\<close> gives, with the active flag false.
\<close>

theorem submit_persistence:
  "(store (buildResults u now s) = InsertResponds (Some e) \<longrightarrow>
      thrown (submitTest (Some u) now store s) = Some (StoreError e)
      \<and> state_after (submitTest (Some u) now store s) = s
      \<and> isActive (state_after (submitTest (Some u) now store s)) = isActive s)
   \<and> (store (buildResults u now s) = InsertThrows e \<longrightarrow>
      thrown (submitTest (Some u) now store s) = Some (Rejected e)
      \<and> state_after (submitTest (Some u) now store s) = s
      \<and> isActive (state_after (submitTest (Some u) now store s)) = isActive s)
   \<and> (store (buildResults u now s) = InsertResponds None \<longrightarrow>
      thrown (submitTest (Some u) now store s) = None
      \<and> state_after (submitTest (Some u) now store s) = endTest s
      \<and> \<not> isActive (state_after (submitTest (Some u) now store s)))"
  by (simp add: submitTest_def Let_def endTest_def)

theorem submit_persistence_witness:
  "thrown (submitTest (Some mockUser) 5000 (\<lambda>rs. InsertResponds (Some ''denied'')) mockSession)
     = Some (StoreError ''denied'')
   \<and> isActive (state_after
        (submitTest (Some mockUser) 5000 (\<lambda>rs. InsertResponds (Some ''denied'')) mockSession))
   \<and> thrown (submitTest (Some mockUser) 5000 (\<lambda>rs. InsertThrows ''offline'') mockSession)
     = Some (Rejected ''offline'')
   \<and> isActive (state_after
        (submitTest (Some mockUser) 5000 (\<lambda>rs. InsertThrows ''offline'') mockSession))
   \<and> thrown (submitTest (Some mockUser) 5000 (\<lambda>rs. InsertResponds None) mockSession) = None
   \<and> \<not> isActive (state_after
        (submitTest (Some mockUser) 5000 (\<lambda>rs. InsertResponds None) mockSession))"
proof -
  have act: "isActive mockSession"
    by (simp add: mockSession_def)
  from submit_persistence
    [of "\<lambda>rs. InsertResponds (Some ''denied'')" mockUser 5000 mockSession "''denied''"]
  have a: "thrown (submitTest (Some mockUser) 5000 (\<lambda>rs. InsertResponds (Some ''denied'')) mockSession)
       = Some (StoreError ''denied'')
     \<and> isActive (state_after
        (submitTest (Some mockUser) 5000 (\<lambda>rs. InsertResponds (Some ''denied'')) mockSession))"
    using act by simp
  from submit_persistence
    [of "\<lambda>rs. InsertThrows ''offline''" mockUser 5000 mockSession "''offline''"]
  have b: "thrown (submitTest (Some mockUser) 5000 (\<lambda>rs. InsertThrows ''offline'') mockSession)
       = Some (Rejected ''offline'')
     \<and> isActive (state_after
        (submitTest (Some mockUser) 5000 (\<lambda>rs. InsertThrows ''offline'') mockSession))"
    using act by simp
  from submit_persistence
    [of "\<lambda>rs. InsertResponds None" mockUser 5000 mockSession]
  have c: "thrown (submitTest (Some mockUser) 5000 (\<lambda>rs. InsertResponds None) mockSession) = None
     \<and> \<not> isActive (state_after
        (submitTest (Some mockUser) 5000 (\<lambda>rs. InsertResponds None) mockSession))"
    by blast
  from a b c show ?thesis by simp
qed

section \<open>Properties of the scorer\<close>

subsection \<open>One step of the loop\<close>

lemma map_of_tally:
  "map_of (tally acc a q) =
     (if subject q \<in> set objectPrototypeKeys then map_of acc
      else (map_of acc)(subject q \<mapsto>
             \<lparr>correct = correct (the_score acc (subject q))
                         + (if selectedAnswer a = Some (correctAnswer q) then 1 else 0),
              total = total (the_score acc (subject q)) + 1\<rparr>))"
  by (auto simp: tally_def Let_def AList.map_of_map_entry the_score_def fun_eq_iff
      map_add_def split: option.splits)

lemma distinct_tally:
  assumes "distinct (map fst acc)"
  shows "distinct (map fst (tally acc a q))"
proof -
  have "distinct (map fst (acc @ [(k, v)]))" if "map_of acc k = None" for k and v :: SubjectScore
    using that assms by (auto simp: map_of_eq_None_iff)
  with assms show ?thesis
    by (auto simp: tally_def Let_def intro!: AList.distinct_map_entry)
qed

subsection \<open>The loop\<close>

lemma scoreAnswers_past_end:
  "length qs \<le> i \<Longrightarrow> scoreAnswers qs as i acc = acc"
  by (induction as arbitrary: i) simp_all

lemma scoreAnswers_foldl:
  "scoreAnswers qs as i acc = foldl (\<lambda>sc (a, q). tally sc a q) acc (zip as (drop i qs))"
proof (induction as arbitrary: i acc)
  case Nil
  then show ?case by simp
next
  case (Cons a rest)
  show ?case
  proof (cases "i < length qs")
    case True
    then have "drop i qs = qs ! i # drop (Suc i) qs"
      by (simp add: Cons_nth_drop_Suc)
    with True Cons show ?thesis by simp
  next
    case False
    then show ?thesis by (simp add: scoreAnswers_past_end)
  qed
qed

lemma map_of_foldl_tally:
  "map_of (foldl (\<lambda>sc (a, q). tally sc a q) acc ps) subj =
     (if subj \<in> set objectPrototypeKeys \<or> cnt_total ps subj = 0 then map_of acc subj
      else Some \<lparr>correct = correct (the_score acc subj) + cnt_correct ps subj,
                 total = total (the_score acc subj) + cnt_total ps subj\<rparr>)"
proof (induction ps arbitrary: acc)
  case Nil
  then show ?case by (simp add: cnt_total_def)
next
  case (Cons p ps)
  obtain a q where p: "p = (a, q)" by (cases p)
  show ?case
    unfolding p foldl_Cons prod.case Cons.IH
    by (auto simp: map_of_tally cnt_total_def cnt_correct_def the_score_def filter_empty_conv
        split: option.splits)
qed

lemma distinct_foldl_tally:
  "distinct (map fst acc) \<Longrightarrow> distinct (map fst (foldl (\<lambda>sc (a, q). tally sc a q) acc ps))"
  by (induction ps arbitrary: acc) (auto simp: distinct_tally)

lemma calculateScores_foldl:
  "calculateScores s = foldl (\<lambda>sc (a, q). tally sc a q) [] (zip (answers s) (questions s))"
  by (simp add: calculateScores_def scoreAnswers_foldl)

lemma distinct_calculateScores: "distinct (map fst (calculateScores s))"
  by (simp add: calculateScores_foldl distinct_foldl_tally)

lemma map_of_calculateScores:
  "map_of (calculateScores s) subj =
     (if subj \<in> set objectPrototypeKeys \<or> cnt_total (zip (answers s) (questions s)) subj = 0
      then None
      else Some \<lparr>correct = cnt_correct (zip (answers s) (questions s)) subj,
                 total = cnt_total (zip (answers s) (questions s)) subj\<rparr>)"
  by (simp add: calculateScores_foldl map_of_foldl_tally the_score_def)

lemma calculateScores_entry:
  assumes "(subj, sc) \<in> set (calculateScores s)"
  shows "sc = \<lparr>correct = cnt_correct (zip (answers s) (questions s)) subj,
               total = cnt_total (zip (answers s) (questions s)) subj\<rparr>"
    and "0 < cnt_total (zip (answers s) (questions s)) subj"
    and "subj \<notin> set objectPrototypeKeys"
proof -
  from assms have "map_of (calculateScores s) subj = Some sc"
    using distinct_calculateScores by simp
  then show "sc = \<lparr>correct = cnt_correct (zip (answers s) (questions s)) subj,
               total = cnt_total (zip (answers s) (questions s)) subj\<rparr>"
    and "0 < cnt_total (zip (answers s) (questions s)) subj"
    and "subj \<notin> set objectPrototypeKeys"
    by (auto simp: map_of_calculateScores split: if_splits)
qed

lemma cnt_correct_le_total: "cnt_correct ps subj \<le> cnt_total ps subj"
  by (induction ps) (auto simp: cnt_correct_def cnt_total_def)

subsection \<open>The counts of the specification\<close>

lemma zip_as_indices:
  assumes "length as = length qs"
  shows "zip as qs = map (\<lambda>i. (as ! i, qs ! i)) [0 ..< length qs]"
  using assms by (intro nth_equalityI) simp_all

lemma cnt_total_spec:
  assumes "length as = length qs"
  shows "cnt_total (zip as qs) subj = spec_total qs subj"
  unfolding cnt_total_def spec_total_def zip_as_indices [OF assms]
  by (simp add: filter_map comp_def)

lemma cnt_correct_spec:
  assumes "length as = length qs"
  shows "cnt_correct (zip as qs) subj = spec_correct qs as subj"
  unfolding cnt_correct_def spec_correct_def zip_as_indices [OF assms]
  by (simp add: filter_map comp_def)

lemma spec_total_zero_iff: "spec_total qs subj = 0 \<longleftrightarrow> subj \<notin> subject ` set qs"
proof -
  have "spec_total qs subj = 0 \<longleftrightarrow> (\<forall>i < length qs. subject (qs ! i) \<noteq> subj)"
    by (auto simp: spec_total_def filter_empty_conv)
  also have "\<dots> \<longleftrightarrow> (\<forall>q \<in> set qs. subject q \<noteq> subj)"
    by (simp add: all_set_conv_all_nth)
  also have "\<dots> \<longleftrightarrow> subj \<notin> subject ` set qs"
    by auto
  finally show ?thesis .
qed

lemma percentage_spec: "percentage sc = spec_percentage (correct sc) (total sc)"
  by (simp add: percentage_def spec_percentage_def mult.commute)

text \<open>
  For every subject whose name \<open>Object.prototype\<close> does not define, the scorer does
  what the specification says: on aligned sequences the entry of a subject that has
  questions holds the two counts, and a subject without questions has no entry.
\<close>

lemma scores_of_own_subjects:
  assumes "length (answers s) = length (questions s)"
    and "subj \<notin> set objectPrototypeKeys"
  shows "map_of (calculateScores s) subj =
           (if subj \<in> subject ` set (questions s)
            then Some \<lparr>correct = spec_correct (questions s) (answers s) subj,
                       total = spec_total (questions s) subj\<rparr>
            else None)"
  using assms
  by (simp add: map_of_calculateScores cnt_total_spec cnt_correct_spec spec_total_zero_iff)

lemma buildResults_scores:
  assumes "length (answers s) = length (questions s)"
    and "r \<in> set (buildResults u now s)"
  shows "score r = spec_percentage (spec_correct (questions s) (answers s) (subject_res r))
           (spec_total (questions s) (subject_res r))"
proof -
  from assms(2) obtain subj sc where e: "(subj, sc) \<in> set (calculateScores s)"
    and r: "subject_res r = subj" "score r = percentage sc"
    by (auto simp: buildResults_def)
  from calculateScores_entry(1) [OF e] assms(1) r show ?thesis
    by (simp add: percentage_spec cnt_total_spec cnt_correct_spec)
qed

lemma scorer_example:
  "calculateScores exampleSession = [(''Math'', \<lparr>correct = 1, total = 2\<rparr>)]
   \<and> map (\<lambda>r. (subject_res r, score r)) (buildResults u now exampleSession) = [(''Math'', 50)]"
  by (simp add: calculateScores_def exampleSession_def tally_def objectPrototypeKeys_def
      buildResults_def percentage_def)

subsection \<open>The claims about the scorer\<close>

text \<open>
  Claim C2, at a session the code can receive where it does not hold. The session has
  one question, of the subject named \<open>constructor\<close>, answered correctly, and its two
  sequences are aligned. The specification's counts for that subject are 1 correct of
  1 in total, so the entry \<open>{correct: 1, total: 1, percentage: 100}\<close> is due. The scorer
  reads the inherited \<open>Object.prototype.constructor\<close> where it looks for the entry, so
  it creates none: \<open>subjectScores\<close> has no own property, and no record is built.
\<close>

theorem inherited_subject_not_scored:
  "aligned constructorSession
   \<and> ''constructor'' \<in> subject ` set (questions constructorSession)
   \<and> spec_correct (questions constructorSession) (answers constructorSession) ''constructor'' = 1
   \<and> spec_total (questions constructorSession) ''constructor'' = 1
   \<and> calculateScores constructorSession = []
   \<and> buildResults mockUser 5000 constructorSession = []"
  by (simp add: aligned_def constructorSession_def spec_correct_def spec_total_def
      calculateScores_def buildResults_def tally_def objectPrototypeKeys_def)

text \<open>
  Claim C6. When the selected option of an answer record is null, the step of the
  scorer for that record and its question leaves the correct count of every subject as
  it was (a subject without an entry counting as zero), whatever the question and its
  correct-answer index are.
\<close>

theorem null_answer_never_correct:
  assumes "selectedAnswer a = None"
  shows "correct (the_score (tally acc a q) subj) = correct (the_score acc subj)"
  using assms by (simp add: the_score_def map_of_tally)

theorem null_answer_never_correct_witness:
  "selectedAnswer (initialAnswer (hd mockQuestions)) = None
   \<and> tally [] (initialAnswer (hd mockQuestions)) (hd mockQuestions)
       = [(''Math'', \<lparr>correct = 0, total = 1\<rparr>)]
   \<and> correct (the_score (tally [] (initialAnswer (hd mockQuestions)) (hd mockQuestions))
        ''Math'') = 0"
proof -
  have h: "selectedAnswer (initialAnswer (hd mockQuestions)) = None"
    by (simp add: initialAnswer_def)
  have t: "tally [] (initialAnswer (hd mockQuestions)) (hd mockQuestions)
       = [(''Math'', \<lparr>correct = 0, total = 1\<rparr>)]"
    by (simp add: initialAnswer_def mockQuestions_def tally_def objectPrototypeKeys_def)
  from null_answer_never_correct [OF h, of "[]" "hd mockQuestions" "''Math''"]
  have "correct (the_score (tally [] (initialAnswer (hd mockQuestions)) (hd mockQuestions))
        ''Math'') = 0"
    by (simp add: the_score_def)
  with h t show ?thesis by simp
qed

lemma percentage_bounds:
  assumes "correct sc \<le> total sc"
  shows "0 \<le> percentage sc \<and> percentage sc \<le> 100"
proof (cases "total sc > 0")
  case True
  let ?x = "real (correct sc) / real (total sc) * 100"
  from True assms have lo: "0 \<le> ?x" and hi: "?x \<le> 100"
    by (simp_all add: field_simps)
  from round_mono [OF lo] have "0 \<le> round ?x"
    by simp
  moreover from round_mono [OF hi] have "round ?x \<le> 100"
    by simp
  ultimately show ?thesis
    using True by (simp add: percentage_def)
next
  case False
  then show ?thesis by (simp add: percentage_def)
qed

text \<open>
  Claim C10. In every state of the session, every record that \<open>submitTest\<close> builds for
  a user has a score that is an integer from 0 to 100.
\<close>

theorem score_within_bounds:
  "\<forall>r \<in> set (buildResults u now s). 0 \<le> score r \<and> score r \<le> 100"
proof
  fix r
  assume "r \<in> set (buildResults u now s)"
  then obtain subj sc where e: "(subj, sc) \<in> set (calculateScores s)"
    and r: "score r = percentage sc"
    by (auto simp: buildResults_def)
  from calculateScores_entry(1) [OF e] have "correct sc \<le> total sc"
    by (simp add: cnt_correct_le_total)
  with r show "0 \<le> score r \<and> score r \<le> 100"
    by (simp add: percentage_bounds)
qed

theorem score_within_bounds_witness:
  "map score (buildResults mockUser 5000 (selectAnswer ''math_1'' 0 mockSession)) = [50, 0, 0]
   \<and> 0 \<le> score (hd (buildResults mockUser 5000 (selectAnswer ''math_1'' 0 mockSession)))
   \<and> score (hd (buildResults mockUser 5000 (selectAnswer ''math_1'' 0 mockSession))) \<le> 100"
proof -
  let ?rs = "buildResults mockUser 5000 (selectAnswer ''math_1'' 0 mockSession)"
  have m: "map score ?rs = [50, 0, 0]"
    by (simp add: buildResults_def calculateScores_def selectAnswer_def mockSession_def
        mockQuestions_def initialAnswer_def tally_def objectPrototypeKeys_def
        percentage_def)
  then have "?rs \<noteq> []" by auto
  then have "hd ?rs \<in> set ?rs" by simp
  with score_within_bounds [of mockUser 5000 "selectAnswer ''math_1'' 0 mockSession"]
  have "0 \<le> score (hd ?rs) \<and> score (hd ?rs) \<le> 100"
    by blast
  with m show ?thesis by simp
qed

end
